theory Spec2Isabelle
  imports Main
begin

section \<open>Dates and date ranges\<close>

text \<open>
  A JavaScript \<^verbatim>\<open>Date\<close> object holds one time value: a whole number of milliseconds
  since the epoch, or NaN, in which case the object is an "Invalid Date". Both kinds are
  objects, hence truthy: \<^verbatim>\<open>!range.from\<close> is true only when the bound is
  \<^verbatim>\<open>undefined\<close>.
\<close>

datatype Date = InvalidDate | Date int

text \<open>
  \<^verbatim>\<open>DateRange\<close> of react-day-picker:
  \<^verbatim>\<open>{ from: Date | undefined; to?: Date | undefined }\<close>. The fields are named
  \<open>from_d\<close> and \<open>to_d\<close> here.
\<close>

record DateRange =
  from_d :: "Date option"
  to_d :: "Date option"

text \<open>\<^verbatim>\<open>isValid\<close> of date-fns: false exactly on an Invalid Date.\<close>

fun isValid :: "Date \<Rightarrow> bool" where
  "isValid InvalidDate = False"
| "isValid (Date t) = True"

text \<open>
  \<^verbatim>\<open>a <= b\<close> on two Date objects compares their time values as numbers; every
  comparison with NaN is false.
\<close>

fun date_le :: "Date \<Rightarrow> Date \<Rightarrow> bool" where
  "date_le (Date a) (Date b) = (a \<le> b)"
| "date_le _ _ = False"

text \<open>
  \<^verbatim>\<open>
  const isValidDateRange = (range: DateRange | undefined): boolean => {
    if (!range?.from || !range?.to) return false;
    return isValid(range.from) && isValid(range.to) && range.from <= range.to;
  };
  \<close>
\<close>

definition isValidDateRange :: "DateRange option \<Rightarrow> bool" where
  "isValidDateRange rng =
     (case rng of
        None \<Rightarrow> False
      | Some r \<Rightarrow>
          (case from_d r of
             None \<Rightarrow> False
           | Some f \<Rightarrow>
               (case to_d r of
                  None \<Rightarrow> False
                | Some t \<Rightarrow> isValid f \<and> isValid t \<and> date_le f t)))"

section \<open>The calendar of the JavaScript runtime\<close>

text \<open>
  \<^verbatim>\<open>toDateString\<close>, \<^verbatim>\<open>getFullYear\<close>, \<^verbatim>\<open>getMonth\<close> and \<^verbatim>\<open>getDate\<close> are built-ins
  of the runtime. They are modelled after the abstract operations of ECMA-262 (section
  "Date Objects"), on time values in milliseconds: \<open>Day\<close>, \<open>DayFromYear\<close>,
  \<open>DaysInYear\<close>, \<open>InLeapYear\<close>, \<open>DayWithinYear\<close>, \<open>MonthFromTime\<close>,
  \<open>DateFromTime\<close>, \<open>WeekDay\<close> and \<open>LocalTime\<close> are written as the standard writes
  them. The offset of local time from UTC at a time value (\<open>LocalTZA\<close>, which depends on
  the host's time zone) is the parameter \<open>tza\<close>.
\<close>

definition msPerDay :: int where
  "msPerDay = 86400000"

definition Day :: "int \<Rightarrow> int" where
  "Day t = t div msPerDay"

definition LocalTime :: "(int \<Rightarrow> int) \<Rightarrow> int \<Rightarrow> int" where
  "LocalTime tza t = t + tza t"

definition WeekDay :: "int \<Rightarrow> int" where
  "WeekDay t = (Day t + 4) mod 7"

definition DaysInYear :: "int \<Rightarrow> int" where
  "DaysInYear y =
     (if y mod 4 \<noteq> 0 then 365
      else if y mod 100 \<noteq> 0 then 366
      else if y mod 400 \<noteq> 0 then 365
      else 366)"

definition DayFromYear :: "int \<Rightarrow> int" where
  "DayFromYear y =
     365 * (y - 1970) + (y - 1969) div 4 - (y - 1901) div 100 + (y - 1601) div 400"

text \<open>
  The standard defines \<open>YearFromTime t\<close> as the largest year \<open>y\<close> whose first day is
  not after \<open>t\<close>. It is computed here by counting whole cycles of 400 years (146097
  days), of 100 years (36524 days), of 4 years (1461 days) and of one year from
  1 January 1601, which is day -134774; \<open>YearFromTime_largest\<close> below proves that the
  result is the year of the standard.
\<close>

definition YearFromTime :: "int \<Rightarrow> int" where
  "YearFromTime t =
     (let z = Day t + 134774;
          q = z div 146097;
          r = z mod 146097;
          c = min 3 (r div 36524);
          r2 = r - 36524 * c;
          g = r2 div 1461;
          r3 = r2 mod 1461;
          k = min 3 (r3 div 365)
      in 1601 + 400 * q + 100 * c + 4 * g + k)"

definition InLeapYear :: "int \<Rightarrow> int" where
  "InLeapYear t = (if DaysInYear (YearFromTime t) = 365 then 0 else 1)"

definition DayWithinYear :: "int \<Rightarrow> int" where
  "DayWithinYear t = Day t - DayFromYear (YearFromTime t)"

definition MonthFromTime :: "int \<Rightarrow> int" where
  "MonthFromTime t =
     (let d = DayWithinYear t; l = InLeapYear t
      in if d < 31 then 0
         else if d < 59 + l then 1
         else if d < 90 + l then 2
         else if d < 120 + l then 3
         else if d < 151 + l then 4
         else if d < 181 + l then 5
         else if d < 212 + l then 6
         else if d < 243 + l then 7
         else if d < 273 + l then 8
         else if d < 304 + l then 9
         else if d < 334 + l then 10
         else 11)"

definition DateFromTime :: "int \<Rightarrow> int" where
  "DateFromTime t =
     (let d = DayWithinYear t; l = InLeapYear t; m = MonthFromTime t
      in if m = 0 then d + 1
         else if m = 1 then d - 30
         else if m = 2 then d - 58 - l
         else if m = 3 then d - 89 - l
         else if m = 4 then d - 119 - l
         else if m = 5 then d - 150 - l
         else if m = 6 then d - 180 - l
         else if m = 7 then d - 211 - l
         else if m = 8 then d - 242 - l
         else if m = 9 then d - 272 - l
         else if m = 10 then d - 303 - l
         else d - 333 - l)"

subsection \<open>Decimal numerals and names\<close>

definition digit :: "nat \<Rightarrow> char" where
  "digit d = ''0123456789'' ! d"

fun decimal :: "nat \<Rightarrow> string" where
  "decimal n = (if n < 10 then [digit n] else decimal (n div 10) @ [digit (n mod 10)])"

text \<open>
  \<open>ToZeroPaddedDecimalString\<close> of the standard, which is also
  \<^verbatim>\<open>String(n).padStart(minLength, "0")\<close>.
\<close>

definition ToZeroPaddedDecimalString :: "nat \<Rightarrow> nat \<Rightarrow> string" where
  "ToZeroPaddedDecimalString n minLength =
     replicate (minLength - length (decimal n)) CHR ''0'' @ decimal n"

text \<open>The value a string of digits denotes; it reads back what \<open>decimal\<close> writes.\<close>

definition digit_value :: "char \<Rightarrow> nat" where
  "digit_value c = of_char c - 48"

definition decimal_value :: "string \<Rightarrow> nat" where
  "decimal_value s = foldl (\<lambda>a c. 10 * a + digit_value c) 0 s"

definition weekdayNames :: "string list" where
  "weekdayNames = [''Sun'', ''Mon'', ''Tue'', ''Wed'', ''Thu'', ''Fri'', ''Sat'']"

definition monthNames :: "string list" where
  "monthNames =
     [''Jan'', ''Feb'', ''Mar'', ''Apr'', ''May'', ''Jun'',
      ''Jul'', ''Aug'', ''Sep'', ''Oct'', ''Nov'', ''Dec'']"

definition weekdayName :: "int \<Rightarrow> string" where
  "weekdayName w = weekdayNames ! nat w"

definition monthName :: "int \<Rightarrow> string" where
  "monthName m = monthNames ! nat m"

subsection \<open>\<^verbatim>\<open>Date.prototype.toDateString\<close>\<close>

text \<open>
  \<open>DateString\<close> of the standard: the name of the week day, the name of the month, the
  day of the month on two digits, and the year on at least four digits with a minus sign
  when it is negative, separated by spaces. \<^verbatim>\<open>toDateString\<close> applies it to the local
  time, and answers \<^verbatim>\<open>"Invalid Date"\<close> for a NaN time value.
\<close>

definition yearString :: "int \<Rightarrow> string" where
  "yearString yv = (if 0 \<le> yv then [] else ''-'') @ ToZeroPaddedDecimalString (nat \<bar>yv\<bar>) 4"

definition DateString :: "int \<Rightarrow> string" where
  "DateString tv =
     weekdayName (WeekDay tv) @ '' '' @ monthName (MonthFromTime tv) @ '' '' @
     ToZeroPaddedDecimalString (nat (DateFromTime tv)) 2 @ '' '' @
     yearString (YearFromTime tv)"

definition toDateString :: "(int \<Rightarrow> int) \<Rightarrow> Date \<Rightarrow> string" where
  "toDateString tza d =
     (case d of InvalidDate \<Rightarrow> ''Invalid Date'' | Date tv \<Rightarrow> DateString (LocalTime tza tv))"

text \<open>
  The calendar day of a date in local time, as \<^verbatim>\<open>getFullYear()\<close>, \<^verbatim>\<open>getMonth()\<close>
  and \<^verbatim>\<open>getDate()\<close> give it. On an Invalid Date the three getters answer NaN: it has no
  calendar day.
\<close>

definition calendarDay :: "(int \<Rightarrow> int) \<Rightarrow> Date \<Rightarrow> (int \<times> int \<times> int) option" where
  "calendarDay tza d =
     (case d of
        InvalidDate \<Rightarrow> None
      | Date tv \<Rightarrow>
          Some (YearFromTime (LocalTime tza tv), MonthFromTime (LocalTime tza tv),
                DateFromTime (LocalTime tza tv)))"

text \<open>A host whose local time is UTC.\<close>

definition utc :: "int \<Rightarrow> int" where
  "utc t = 0"

section \<open>Range equality\<close>

text \<open>
  \<^verbatim>\<open>
  const isRangeEqual = (range1: DateRange | undefined, range2: DateRange | undefined) => {
    if (!range1?.from || !range1?.to || !range2?.from || !range2?.to) { return false; }
    return (
      range1.from.toDateString() === range2.from.toDateString() &&
      range1.to.toDateString() === range2.to.toDateString()
    );
  };
  \<close>
\<close>

definition isRangeEqual :: "(int \<Rightarrow> int) \<Rightarrow> DateRange option \<Rightarrow> DateRange option \<Rightarrow> bool" where
  "isRangeEqual tza range1 range2 =
     (case range1 of
        None \<Rightarrow> False
      | Some r1 \<Rightarrow>
          (case from_d r1 of
             None \<Rightarrow> False
           | Some f1 \<Rightarrow>
               (case to_d r1 of
                  None \<Rightarrow> False
                | Some t1 \<Rightarrow>
                    (case range2 of
                       None \<Rightarrow> False
                     | Some r2 \<Rightarrow>
                         (case from_d r2 of
                            None \<Rightarrow> False
                          | Some f2 \<Rightarrow>
                              (case to_d r2 of
                                 None \<Rightarrow> False
                               | Some t2 \<Rightarrow>
                                   toDateString tza f1 = toDateString tza f2 \<and>
                                   toDateString tza t1 = toDateString tza t2))))))"

section \<open>Formatting with date-fns\<close>

text \<open>
  \<^verbatim>\<open>format(date, "LLL dd, y")\<close> of date-fns throws
  \<^verbatim>\<open>RangeError: Invalid time value\<close> on an Invalid Date. On a valid date, in the
  default locale, \<^verbatim>\<open>LLL\<close> is the abbreviated name of the month, \<^verbatim>\<open>dd\<close> the day of
  the month on two digits, \<^verbatim>\<open>y\<close> the year (year 0 and the years before it are counted
  as years before the era: \<^verbatim>\<open>signedYear > 0 ? signedYear : 1 - signedYear\<close>), all in
  local time; the comma and the spaces of the pattern are copied.
  \<^verbatim>\<open>addLeadingZeros(number, targetLength)\<close> is the library's own padding helper.
\<close>

datatype error = RangeError

definition addLeadingZeros :: "int \<Rightarrow> nat \<Rightarrow> string" where
  "addLeadingZeros number targetLength =
     (if number < 0 then ''-'' else []) @ ToZeroPaddedDecimalString (nat \<bar>number\<bar>) targetLength"

definition render_LLL_dd_y :: "int \<Rightarrow> string" where
  "render_LLL_dd_y t =
     (let signedYear = YearFromTime t;
          year = (if signedYear > 0 then signedYear else 1 - signedYear)
      in monthName (MonthFromTime t) @ '' '' @ addLeadingZeros (DateFromTime t) 2 @ '', '' @
         addLeadingZeros year 1)"

definition format_LLL_dd_y :: "(int \<Rightarrow> int) \<Rightarrow> Date \<Rightarrow> error + string" where
  "format_LLL_dd_y tza d =
     (case d of
        InvalidDate \<Rightarrow> Inl RangeError
      | Date tv \<Rightarrow> Inr (render_LLL_dd_y (LocalTime tza tv)))"

text \<open>
  \<^verbatim>\<open>getTime()\<close> is the time value, \<open>None\<close> standing for NaN, and \<^verbatim>\<open>===\<close> on two
  numbers is false as soon as one of them is NaN.
\<close>

fun getTime :: "Date \<Rightarrow> int option" where
  "getTime InvalidDate = None"
| "getTime (Date tv) = Some tv"

fun strict_equal :: "int option \<Rightarrow> int option \<Rightarrow> bool" where
  "strict_equal (Some a) (Some b) = (a = b)"
| "strict_equal _ _ = False"

section \<open>The selection controller\<close>

text \<open>
  The props of \<^verbatim>\<open>DateRangePicker\<close> that the handlers read (\<open>value_prop\<close> is the prop
  \<^verbatim>\<open>value\<close>, the committed range owned by the host), and the component's two state
  variables (\<open>is_open\<close> is \<^verbatim>\<open>open\<close>).
\<close>

record props =
  value_prop :: "DateRange option"
  placeholder :: string
  closeOnClear :: bool
  applyOnPredefinedSelect :: bool
  clearOnSelect :: bool

record state =
  is_open :: bool
  tempRange :: "DateRange option"

text \<open>
  A handler runs to completion on the values of the render it was created in. What it
  does is a sequence of calls of three kinds: of the setter \<^verbatim>\<open>setOpen\<close>, of the setter
  \<^verbatim>\<open>setTempRange\<close>, and of the host's callback, \<^verbatim>\<open>onChange?.(x)\<close>, which reaches the
  host when it passed a callback. A handler is modelled by the list of these calls; the
  state of the next render is the old state with the setters applied in order.
\<close>

datatype effect =
    SetOpen bool
  | SetTempRange "DateRange option"
  | OnChange "DateRange option"

fun apply_effect :: "state \<Rightarrow> effect \<Rightarrow> state" where
  "apply_effect s (SetOpen b) = s\<lparr>is_open := b\<rparr>"
| "apply_effect s (SetTempRange r) = s\<lparr>tempRange := r\<rparr>"
| "apply_effect s (OnChange r) = s"

definition commit :: "state \<Rightarrow> effect list \<Rightarrow> state" where
  "commit s es = foldl apply_effect s es"

text \<open>The values handed to the host's callback, in call order.\<close>

fun emitted :: "effect list \<Rightarrow> DateRange option list" where
  "emitted [] = []"
| "emitted (OnChange r # es) = r # emitted es"
| "emitted (e # es) = emitted es"

text \<open>
  \<^verbatim>\<open>
  const handleRangeSelect = (range: DateRange | undefined) => { setTempRange(range); };
  \<close>
\<close>

definition handleRangeSelect :: "props \<Rightarrow> state \<Rightarrow> DateRange option \<Rightarrow> effect list" where
  "handleRangeSelect p s rng = [SetTempRange rng]"

text \<open>
  \<^verbatim>\<open>
  const handlePredefinedRangeSelect = (range: DateRange) => {
    setTempRange(range);
    if (applyOnPredefinedSelect) { onChange?.(range); setOpen(false); }
  };
  \<close>
\<close>

definition handlePredefinedRangeSelect :: "props \<Rightarrow> state \<Rightarrow> DateRange \<Rightarrow> effect list" where
  "handlePredefinedRangeSelect p s rng =
     SetTempRange (Some rng) #
     (if applyOnPredefinedSelect p then [OnChange (Some rng), SetOpen False] else [])"

text \<open>
  \<^verbatim>\<open>
  const handleApply = () => {
    // Only apply if range is valid or undefined
    if (!tempRange || isValidDateRange(tempRange)) { onChange?.(tempRange); setOpen(false); }
  };
  \<close>
\<close>

definition handleApply :: "props \<Rightarrow> state \<Rightarrow> effect list" where
  "handleApply p s =
     (if tempRange s = None \<or> isValidDateRange (tempRange s)
      then [OnChange (tempRange s), SetOpen False]
      else [])"

text \<open>
  \<^verbatim>\<open>
  const handleClear = () => {
    setTempRange(undefined);
    if (clearOnSelect) { onChange?.(undefined); if (closeOnClear) setOpen(false); }
  };
  \<close>
\<close>

definition handleClear :: "props \<Rightarrow> state \<Rightarrow> effect list" where
  "handleClear p s =
     SetTempRange None #
     (if clearOnSelect p
      then OnChange None # (if closeOnClear p then [SetOpen False] else [])
      else [])"

text \<open>
  \<^verbatim>\<open>
  const handleOpenChange = (newOpen: boolean) => {
    setOpen(newOpen);
    // Reset temp range when closing without applying
    if (!newOpen && !applyOnPredefinedSelect) { setTempRange(value); }
  };
  \<close>
\<close>

definition handleOpenChange :: "props \<Rightarrow> state \<Rightarrow> bool \<Rightarrow> effect list" where
  "handleOpenChange p s newOpen =
     SetOpen newOpen #
     (if \<not> newOpen \<and> \<not> applyOnPredefinedSelect p then [SetTempRange (value_prop p)] else [])"

text \<open>
  \<^verbatim>\<open>
  const formatDateRange = (range: DateRange | undefined): string => {
    if (!range?.from) { return placeholder; }
    if (!range.to) { return format(range.from, "LLL dd, y"); }
    if (range.from.getTime() === range.to.getTime()) { return format(range.from, "LLL dd, y"); }
    return `${format(range.from, "LLL dd, y")} - ${format(range.to, "LLL dd, y")}`;
  };
  \<close>
  The template literal formats \<open>from\<close> first; an exception of either call leaves the
  function.
\<close>

definition formatDateRange :: "(int \<Rightarrow> int) \<Rightarrow> props \<Rightarrow> DateRange option \<Rightarrow> error + string" where
  "formatDateRange tza p rng =
     (case rng of
        None \<Rightarrow> Inr (placeholder p)
      | Some r \<Rightarrow>
          (case from_d r of
             None \<Rightarrow> Inr (placeholder p)
           | Some f \<Rightarrow>
               (case to_d r of
                  None \<Rightarrow> format_LLL_dd_y tza f
                | Some t \<Rightarrow>
                    if strict_equal (getTime f) (getTime t) then format_LLL_dd_y tza f
                    else
                      (case format_LLL_dd_y tza f of
                         Inl e \<Rightarrow> Inl e
                       | Inr a \<Rightarrow>
                           (case format_LLL_dd_y tza t of
                              Inl e \<Rightarrow> Inl e
                            | Inr b \<Rightarrow> Inr (a @ '' - '' @ b))))))"

text \<open>
  \<^verbatim>\<open>
  const isRangeSelected = (predefinedRange: DateRange) => isRangeEqual(predefinedRange, tempRange);
  \<close>
\<close>

definition isRangeSelected :: "(int \<Rightarrow> int) \<Rightarrow> state \<Rightarrow> DateRange \<Rightarrow> bool" where
  "isRangeSelected tza s predefinedRange = isRangeEqual tza (Some predefinedRange) (tempRange s)"

text \<open>
  The effect that mirrors the committed value into the draft:
  \<^verbatim>\<open>React.useEffect(() => { setTempRange(value); }, [value]);\<close>
\<close>

definition syncTempRange :: "props \<Rightarrow> state \<Rightarrow> effect list" where
  "syncTempRange p s = [SetTempRange (value_prop p)]"

text \<open>
  Everything that can run between two renders: one of the five handlers, called with its
  argument by the calendar, a shortcut button, the Apply button, the Clear button or the
  popover, or the synchronising effect.
\<close>

datatype event =
    RangeSelect "DateRange option"
  | PredefinedRangeSelect DateRange
  | Apply
  | Clear
  | OpenChange bool
  | ValueChange

fun dispatch :: "props \<Rightarrow> state \<Rightarrow> event \<Rightarrow> effect list" where
  "dispatch p s (RangeSelect r) = handleRangeSelect p s r"
| "dispatch p s (PredefinedRangeSelect r) = handlePredefinedRangeSelect p s r"
| "dispatch p s Apply = handleApply p s"
| "dispatch p s Clear = handleClear p s"
| "dispatch p s (OpenChange b) = handleOpenChange p s b"
| "dispatch p s ValueChange = syncTempRange p s"

text \<open>
  The host of the usage example in the component's header keeps the committed range in a
  state variable of its own and passes the setter as the callback
  (\<^verbatim>\<open>value={dateRange} onChange={setDateRange}\<close>): every call of the callback
  replaces the committed value, and without a call it stays what it was.
\<close>

definition host_value :: "DateRange option \<Rightarrow> effect list \<Rightarrow> DateRange option" where
  "host_value v es = (case emitted es of [] \<Rightarrow> v | x # xs \<Rightarrow> last (x # xs))"

section \<open>Example values\<close>

text \<open>
  Four instants, midnight UTC of 5 and 6 January and of 1 and 8 February 2024, the ranges
  of the scenarios, and the component's default props.
\<close>

definition D1 :: Date where "D1 = Date 1704412800000"
definition D2 :: Date where "D2 = Date 1704499200000"
definition D3 :: Date where "D3 = Date 1706745600000"
definition D4 :: Date where "D4 = Date 1707350400000"

definition range_D1_D2 :: DateRange where
  "range_D1_D2 = \<lparr>from_d = Some D1, to_d = Some D2\<rparr>"

definition range_D3_D4 :: DateRange where
  "range_D3_D4 = \<lparr>from_d = Some D3, to_d = Some D4\<rparr>"

definition range_D1_only :: DateRange where
  "range_D1_only = \<lparr>from_d = Some D1, to_d = None\<rparr>"

definition default_props :: props where
  "default_props =
     \<lparr>value_prop = None, placeholder = ''Select date range'', closeOnClear = True,
      applyOnPredefinedSelect = True, clearOnSelect = True\<rparr>"

text \<open>
  Noon UTC of 5 and 6 January 2024, and two ranges whose bounds are Invalid Dates.
\<close>

definition D1_noon :: Date where "D1_noon = Date 1704456000000"
definition D2_noon :: Date where "D2_noon = Date 1704542400000"

definition range_invalid :: DateRange where
  "range_invalid = \<lparr>from_d = Some InvalidDate, to_d = Some InvalidDate\<rparr>"

definition range_invalid_only :: DateRange where
  "range_invalid_only = \<lparr>from_d = Some InvalidDate, to_d = None\<rparr>"

section \<open>Facts about the calendar\<close>

lemma DaysInYear_ge: "365 \<le> DaysInYear y"
  by (simp add: DaysInYear_def)

lemma year_arith:
  fixes n q r c' m1 g r3 k' m3 :: int
  assumes z: "n + 134774 = 146097 * q + r" and r: "0 \<le> r" "r < 146097"
    and c': "r = 36524 * c' + m1" "0 \<le> m1" "m1 < 36524"
    and g: "r - 36524 * min 3 c' = 1461 * g + r3" "0 \<le> r3" "r3 < 1461"
    and k': "r3 = 365 * k' + m3" "0 \<le> m3" "m3 < 365"
  defines "y \<equiv> 1601 + 400 * q + 100 * min 3 c' + 4 * g + min 3 k'"
  shows "DayFromYear y \<le> n \<and> n < DayFromYear y + DaysInYear y"
proof -
  define c where "c = min 3 c'"
  define k where "k = min 3 k'"
  define d where "d = r3 - 365 * k"
  have cb: "0 \<le> c" "c \<le> 3" and c4: "c < 3 \<or> c' = 3 \<or> (c' = 4 \<and> m1 = 0)"
    using r c' by (auto simp: c_def min_def)
  have r2: "0 \<le> r - 36524 * c" "r - 36524 * c \<le> 36524"
    using r c' by (auto simp: c_def min_def)
  have gb: "0 \<le> g" "g \<le> 24"
    using r2 g by (auto simp: c_def)
  have kb: "0 \<le> k" "k \<le> 3" "0 \<le> k'" "k' \<le> 4"
    using g k' by (auto simp: k_def min_def)
  have db: "0 \<le> d" "d \<le> 365"
    using g k' by (auto simp: d_def k_def min_def)
  have yeq: "y = 1601 + 400 * q + 100 * c + 4 * g + k"
    by (simp add: y_def c_def k_def)
  have n: "n = 146097 * q + 36524 * c + 1461 * g + 365 * k + d - 134774"
    using z g by (simp add: d_def c_def)
  have e400: "(y - 1601) div 400 = q"
    by (rule int_div_pos_eq [where r = "100 * c + 4 * g + k"]) (use cb gb kb yeq in auto)
  have e100: "(y - 1901) div 100 = 4 * q + c - 3"
    by (rule int_div_pos_eq [where r = "4 * g + k"]) (use cb gb kb yeq in auto)
  have e4: "(y - 1969) div 4 = 100 * q + 25 * c + g - 92"
    by (rule int_div_pos_eq [where r = k]) (use cb gb kb yeq in auto)
  have dfy: "DayFromYear y = 146097 * q + 36524 * c + 1461 * g + 365 * k - 134774"
    unfolding DayFromYear_def e400 e100 e4 by (simp add: yeq)
  have "d < DaysInYear y"
  proof (cases "d = 365")
    case False
    then show ?thesis using db DaysInYear_ge [of y] by simp
  next
    case True
    then have k3: "k = 3" and r3v: "r3 = 1460"
      using k' kb by (auto simp: d_def k_def min_def split: if_splits)
    have y4: "y mod 4 = 0"
      by (rule int_mod_pos_eq [where q = "401 + 100 * q + 25 * c + g"]) (use yeq k3 in auto)
    show ?thesis
    proof (cases "g = 24")
      case False
      have "y mod 100 = 4 * g + 4"
        by (rule int_mod_pos_eq [where q = "16 + 4 * q + c"]) (use yeq k3 gb False in auto)
      then have "y mod 100 \<noteq> 0" using gb by simp
      then show ?thesis using True y4 by (simp add: DaysInYear_def)
    next
      case g24: True
      have "r - 36524 * c = 36524" using g g24 r3v by (simp add: c_def)
      then have c3: "c = 3" using c' cb by (auto simp: c_def min_def split: if_splits)
      have "y mod 400 = 0"
        by (rule int_mod_pos_eq [where q = "5 + q"]) (use yeq k3 g24 c3 in auto)
      moreover have "y mod 100 = 0"
        by (rule int_mod_pos_eq [where q = "20 + 4 * q"]) (use yeq k3 g24 c3 in auto)
      ultimately show ?thesis using True y4 by (simp add: DaysInYear_def)
    qed
  qed
  then show ?thesis using n dfy db by simp
qed

lemma DayWithinYear_bounds:
  "0 \<le> DayWithinYear t \<and> DayWithinYear t < DaysInYear (YearFromTime t)"
proof -
  define z where "z = Day t + 134774"
  define r where "r = z mod 146097"
  define r2 where "r2 = r - 36524 * min 3 (r div 36524)"
  define r3 where "r3 = r2 mod 1461"
  have y: "YearFromTime t =
      1601 + 400 * (z div 146097) + 100 * min 3 (r div 36524) + 4 * (r2 div 1461) +
      min 3 (r3 div 365)"
    by (simp only: YearFromTime_def Let_def z_def r_def r2_def r3_def)
  have "DayFromYear (YearFromTime t) \<le> Day t \<and>
        Day t < DayFromYear (YearFromTime t) + DaysInYear (YearFromTime t)"
    unfolding y
  proof (rule year_arith [where r = r and ?m1.0 = "r mod 36524" and ?r3.0 = r3
        and ?m3.0 = "r3 mod 365"])
    show "Day t + 134774 = 146097 * (z div 146097) + r" by (simp add: r_def z_def)
    show "0 \<le> r" "r < 146097" by (simp_all add: r_def)
    show "r = 36524 * (r div 36524) + r mod 36524" by simp
    show "0 \<le> r mod 36524" "r mod 36524 < 36524" by simp_all
    show "r - 36524 * min 3 (r div 36524) = 1461 * (r2 div 1461) + r3"
      by (simp add: r3_def r2_def)
    show "0 \<le> r3" "r3 < 1461" by (simp_all add: r3_def)
    show "r3 = 365 * (r3 div 365) + r3 mod 365" by simp
    show "0 \<le> r3 mod 365" "r3 mod 365 < 365" by simp_all
  qed
  then show ?thesis by (simp add: DayWithinYear_def)
qed

lemma InLeapYear_bounds: "0 \<le> InLeapYear t \<and> InLeapYear t \<le> 1"
  by (simp add: InLeapYear_def)

lemma DaysInYear_InLeapYear: "DaysInYear (YearFromTime t) = 365 + InLeapYear t"
  by (simp add: InLeapYear_def DaysInYear_def)

lemma MonthFromTime_bounds: "0 \<le> MonthFromTime t \<and> MonthFromTime t \<le> 11"
  by (simp add: MonthFromTime_def Let_def)

lemma DateFromTime_alt:
  "DateFromTime t =
     (let d = DayWithinYear t; l = InLeapYear t
      in if d < 31 then d + 1
         else if d < 59 + l then d - 30
         else if d < 90 + l then d - 58 - l
         else if d < 120 + l then d - 89 - l
         else if d < 151 + l then d - 119 - l
         else if d < 181 + l then d - 150 - l
         else if d < 212 + l then d - 180 - l
         else if d < 243 + l then d - 211 - l
         else if d < 273 + l then d - 242 - l
         else if d < 304 + l then d - 272 - l
         else if d < 334 + l then d - 303 - l
         else d - 333 - l)"
  by (simp add: DateFromTime_def MonthFromTime_def Let_def)

lemma DateFromTime_bounds: "1 \<le> DateFromTime t \<and> DateFromTime t \<le> 31"
proof -
  define d where "d = DayWithinYear t"
  define l where "l = InLeapYear t"
  have d: "0 \<le> d" "d < 365 + l"
    using DayWithinYear_bounds [of t] by (simp_all add: d_def l_def DaysInYear_InLeapYear)
  have l: "0 \<le> l" "l \<le> 1"
    using InLeapYear_bounds [of t] by (simp_all add: l_def)
  show ?thesis
    using d l by (simp add: DateFromTime_alt Let_def flip: d_def l_def)
qed

lemma DayWithinYear_determined:
  "\<exists>f. \<forall>t. DayWithinYear t = DateFromTime t + f (MonthFromTime t) (InLeapYear t)"
  by (rule exI [where x = "\<lambda>m l. if m = 0 then -1 else if m = 1 then 30
        else if m = 2 then 58 + l else if m = 3 then 89 + l else if m = 4 then 119 + l
        else if m = 5 then 150 + l else if m = 6 then 180 + l else if m = 7 then 211 + l
        else if m = 8 then 242 + l else if m = 9 then 272 + l else if m = 10 then 303 + l
        else 333 + l"])
    (simp add: DateFromTime_def Let_def)

lemma calendar_day_inj:
  assumes "YearFromTime t = YearFromTime u" "MonthFromTime t = MonthFromTime u"
    "DateFromTime t = DateFromTime u"
  shows "Day t = Day u"
proof -
  obtain f where f: "\<And>t. DayWithinYear t = DateFromTime t + f (MonthFromTime t) (InLeapYear t)"
    using DayWithinYear_determined by blast
  have "InLeapYear t = InLeapYear u" using assms(1) by (simp add: InLeapYear_def)
  then have "DayWithinYear t = DayWithinYear u"
    using assms(2,3) by (simp add: f)
  then show ?thesis using assms(1) by (simp add: DayWithinYear_def)
qed

lemma calendar_day_cong:
  assumes "Day t = Day u"
  shows "YearFromTime t = YearFromTime u" "MonthFromTime t = MonthFromTime u"
    "DateFromTime t = DateFromTime u" "WeekDay t = WeekDay u"
proof -
  show y: "YearFromTime t = YearFromTime u" by (simp only: YearFromTime_def assms)
  have l: "InLeapYear t = InLeapYear u" using y by (simp add: InLeapYear_def)
  have d: "DayWithinYear t = DayWithinYear u" using y assms by (simp add: DayWithinYear_def)
  show m: "MonthFromTime t = MonthFromTime u" using l d by (simp add: MonthFromTime_def)
  show "DateFromTime t = DateFromTime u" using l d m by (simp add: DateFromTime_def)
  show "WeekDay t = WeekDay u" using assms by (simp add: WeekDay_def)
qed

text \<open>
  \<open>YearFromTime\<close> is the year of the standard: the largest year whose first day is not
  after the time value.
\<close>

lemma div_step:
  fixes a b :: int
  assumes "0 < b"
  shows "(a + 1) div b = a div b + (if (a + 1) mod b = 0 then 1 else 0)"
proof (cases "a mod b = b - 1")
  case True
  have a: "a + 1 = b * (a div b + 1) + 0"
  proof -
    have "b * (a div b) + a mod b = a" by simp
    then have "a + 1 = b * (a div b) + b" using True by linarith
    then show ?thesis by (simp add: algebra_simps)
  qed
  have "(a + 1) div b = a div b + 1"
    using assms by (intro int_div_pos_eq [OF a]) simp_all
  moreover have "(a + 1) mod b = 0"
    using assms by (intro int_mod_pos_eq [OF a]) simp_all
  ultimately show ?thesis by simp
next
  case False
  have m: "0 \<le> a mod b" "a mod b < b" using assms by simp_all
  have a: "a + 1 = b * (a div b) + (a mod b + 1)"
    by simp
  have "(a + 1) div b = a div b"
    using m False by (intro int_div_pos_eq [OF a]) simp_all
  moreover have "(a + 1) mod b = a mod b + 1"
    using m False by (intro int_mod_pos_eq [OF a]) simp_all
  ultimately show ?thesis using m by simp
qed

lemma DayFromYear_next: "DayFromYear (y + 1) = DayFromYear y + DaysInYear y"
proof -
  have s4: "(y + 1 - 1969) div 4 = (y - 1969) div 4 + (if y mod 4 = 0 then 1 else 0)"
  proof -
    have "(y - 1968) mod 4 = y mod 4" using mod_mult_self1 [of y "-492" 4] by simp
    then show ?thesis using div_step [of 4 "y - 1969"] by (simp add: algebra_simps)
  qed
  have s100: "(y + 1 - 1901) div 100 = (y - 1901) div 100 + (if y mod 100 = 0 then 1 else 0)"
  proof -
    have "(y - 1900) mod 100 = y mod 100" using mod_mult_self1 [of y "-19" 100] by simp
    then show ?thesis using div_step [of 100 "y - 1901"] by (simp add: algebra_simps)
  qed
  have s400: "(y + 1 - 1601) div 400 = (y - 1601) div 400 + (if y mod 400 = 0 then 1 else 0)"
  proof -
    have "(y - 1600) mod 400 = y mod 400" using mod_mult_self1 [of y "-4" 400] by simp
    then show ?thesis using div_step [of 400 "y - 1601"] by (simp add: algebra_simps)
  qed
  have d1: "y mod 100 = 0 \<Longrightarrow> y mod 4 = 0"
    using dvd_trans [of 4 100 y] by (simp add: mod_eq_0_iff_dvd)
  have d2: "y mod 400 = 0 \<Longrightarrow> y mod 100 = 0"
    using dvd_trans [of 100 400 y] by (simp add: mod_eq_0_iff_dvd)
  show ?thesis
    unfolding DayFromYear_def s4 s100 s400 DaysInYear_def using d1 d2 by auto
qed

lemma DayFromYear_mono: "y \<le> y' \<Longrightarrow> DayFromYear y \<le> DayFromYear y'"
proof (induction y' rule: int_ge_induct)
  case base
  show ?case by simp
next
  case (step i)
  then show ?case
    using DayFromYear_next [of i] DaysInYear_ge [of i] by simp
qed

lemma YearFromTime_largest:
  "DayFromYear (YearFromTime t) \<le> Day t \<and>
   (\<forall>y. DayFromYear y \<le> Day t \<longrightarrow> y \<le> YearFromTime t)"
proof (intro conjI allI impI)
  show "DayFromYear (YearFromTime t) \<le> Day t"
    using DayWithinYear_bounds [of t] by (simp add: DayWithinYear_def)
next
  fix y
  assume y: "DayFromYear y \<le> Day t"
  show "y \<le> YearFromTime t"
  proof (rule ccontr)
    assume "\<not> y \<le> YearFromTime t"
    then have "YearFromTime t + 1 \<le> y" by simp
    then have "DayFromYear (YearFromTime t + 1) \<le> DayFromYear y"
      by (rule DayFromYear_mono)
    then show False
      using y DayWithinYear_bounds [of t] DayFromYear_next [of "YearFromTime t"]
      by (simp add: DayWithinYear_def)
  qed
qed

section \<open>Facts about the rendering\<close>

declare decimal.simps [simp del]

lemma digit_value_digit: "d < 10 \<Longrightarrow> digit_value (digit d) = d"
proof -
  assume "d < 10"
  then have "d \<in> {0, 1, 2, 3, 4, 5, 6, 7, 8, 9}" by auto
  then show ?thesis by (auto simp: digit_def digit_value_def)
qed

lemma digit_not_minus: "d < 10 \<Longrightarrow> digit d \<noteq> CHR ''-''"
proof -
  assume "d < 10"
  then have "d \<in> {0, 1, 2, 3, 4, 5, 6, 7, 8, 9}" by auto
  then show ?thesis by (auto simp: digit_def)
qed

lemma decimal_value_snoc: "decimal_value (s @ [c]) = 10 * decimal_value s + digit_value c"
  by (simp add: decimal_value_def)

lemma decimal_value_decimal: "decimal_value (decimal n) = n"
proof (induction n rule: decimal.induct)
  case (1 n)
  show ?case
  proof (cases "n < 10")
    case True
    then show ?thesis
      by (simp add: decimal.simps [of n] decimal_value_def digit_value_digit)
  next
    case False
    then have "decimal_value (decimal (n div 10)) = n div 10" by (rule "1.IH")
    with False show ?thesis
      by (simp add: decimal.simps [of n] decimal_value_snoc digit_value_digit)
  qed
qed

lemma decimal_nonempty: "decimal n \<noteq> []"
  by (simp add: decimal.simps [of n])

lemma hd_decimal: "hd (decimal n) \<noteq> CHR ''-''"
proof (induction n rule: decimal.induct)
  case (1 n)
  show ?case
  proof (cases "n < 10")
    case True
    then show ?thesis by (simp add: decimal.simps [of n] digit_not_minus)
  next
    case False
    then have "hd (decimal (n div 10)) \<noteq> CHR ''-''" by (rule "1.IH")
    with False show ?thesis
      by (simp add: decimal.simps [of n] decimal_nonempty)
  qed
qed

lemma length_decimal:
  assumes "n < 100"
  shows "length (decimal n) \<le> 2"
proof (cases "n < 10")
  case True
  then show ?thesis by (simp add: decimal.simps [of n])
next
  case False
  have "n div 10 < 10" using assms by simp
  then have "decimal (n div 10) = [digit (n div 10)]"
    by (simp add: decimal.simps [of "n div 10"])
  with False show ?thesis by (simp add: decimal.simps [of n])
qed

lemma decimal_value_zeros: "decimal_value (replicate k CHR ''0'' @ s) = decimal_value s"
proof -
  have "foldl (\<lambda>a c. 10 * a + digit_value c) 0 (replicate k CHR ''0'') = 0"
    by (induction k) (simp_all add: digit_value_def)
  then show ?thesis by (simp add: decimal_value_def)
qed

lemma decimal_value_padded: "decimal_value (ToZeroPaddedDecimalString n k) = n"
  by (simp add: ToZeroPaddedDecimalString_def decimal_value_zeros decimal_value_decimal)

lemma length_padded2: "n < 100 \<Longrightarrow> length (ToZeroPaddedDecimalString n 2) = 2"
  using length_decimal [of n] by (simp add: ToZeroPaddedDecimalString_def)

lemma hd_padded: "hd (ToZeroPaddedDecimalString n k) \<noteq> CHR ''-''"
  by (cases "k - length (decimal n)")
    (simp_all add: ToZeroPaddedDecimalString_def hd_decimal hd_append decimal_nonempty)

lemma padded_nonempty: "ToZeroPaddedDecimalString n k \<noteq> []"
  by (simp add: ToZeroPaddedDecimalString_def decimal_nonempty)

lemma monthName_props:
  assumes "0 \<le> m" "m \<le> 11"
  shows "length (monthName m) = 3"
proof -
  have "nat m < length monthNames" using assms by (simp add: monthNames_def)
  then have "monthNames ! nat m \<in> set monthNames" by (rule nth_mem)
  then show ?thesis by (auto simp: monthName_def monthNames_def)
qed

lemma monthName_inj:
  assumes "0 \<le> m" "m \<le> 11" "0 \<le> n" "n \<le> 11" "monthName m = monthName n"
  shows "m = n"
proof -
  have d: "distinct monthNames" by (simp add: monthNames_def)
  have "nat m < length monthNames" "nat n < length monthNames"
    using assms by (simp_all add: monthNames_def)
  then have "nat m = nat n"
    using assms(5) d by (simp add: monthName_def nth_eq_iff_index_eq)
  then show ?thesis using assms by simp
qed

lemma weekdayName_length:
  assumes "0 \<le> w" "w \<le> 6"
  shows "length (weekdayName w) = 3"
proof -
  have "nat w < length weekdayNames" using assms by (simp add: weekdayNames_def)
  then have "weekdayNames ! nat w \<in> set weekdayNames" by (rule nth_mem)
  then show ?thesis by (auto simp: weekdayName_def weekdayNames_def)
qed

lemma WeekDay_bounds: "0 \<le> WeekDay t \<and> WeekDay t \<le> 6"
  by (simp add: WeekDay_def)

lemma yearString_inj:
  assumes "yearString y = yearString z"
  shows "y = z"
proof -
  have neg: False
    if "a < 0" "0 \<le> b" "yearString a = yearString b" for a b
  proof -
    have "hd (yearString a) = CHR ''-''"
      using that(1) by (simp add: yearString_def)
    then have "hd (yearString b) = CHR ''-''"
      using that(3) by simp
    then show False
      using that(2) hd_padded [of "nat \<bar>b\<bar>" 4] by (simp add: yearString_def)
  qed
  consider "0 \<le> y" "0 \<le> z" | "y < 0" "z < 0" | "y < 0" "0 \<le> z" | "z < 0" "0 \<le> y"
    by linarith
  then show ?thesis
  proof cases
    case 1
    then have "ToZeroPaddedDecimalString (nat \<bar>y\<bar>) 4 = ToZeroPaddedDecimalString (nat \<bar>z\<bar>) 4"
      using assms by (simp add: yearString_def)
    then have "nat \<bar>y\<bar> = nat \<bar>z\<bar>"
      using decimal_value_padded by metis
    then show ?thesis using 1 by simp
  next
    case 2
    then have "ToZeroPaddedDecimalString (nat \<bar>y\<bar>) 4 = ToZeroPaddedDecimalString (nat \<bar>z\<bar>) 4"
      using assms by (simp add: yearString_def)
    then have "nat \<bar>y\<bar> = nat \<bar>z\<bar>"
      using decimal_value_padded by metis
    then show ?thesis using 2 by simp
  next
    case 3
    then show ?thesis using neg [of y z] assms by simp
  next
    case 4
    then show ?thesis using neg [of z y] assms by simp
  qed
qed

lemma DateString_inj:
  assumes "DateString t = DateString u"
  shows "Day t = Day u"
proof -
  have w: "length (weekdayName (WeekDay t)) = length (weekdayName (WeekDay u))"
    using WeekDay_bounds by (simp add: weekdayName_length)
  have m: "length (monthName (MonthFromTime t)) = length (monthName (MonthFromTime u))"
    using MonthFromTime_bounds by (simp add: monthName_props)
  have dt: "nat (DateFromTime t) < 100" and du: "nat (DateFromTime u) < 100"
    using DateFromTime_bounds [of t] DateFromTime_bounds [of u] by auto
  have d: "length (ToZeroPaddedDecimalString (nat (DateFromTime t)) 2) =
           length (ToZeroPaddedDecimalString (nat (DateFromTime u)) 2)"
    using dt du by (simp add: length_padded2)
  from assms w m d
  have eqs: "monthName (MonthFromTime t) = monthName (MonthFromTime u)"
    "ToZeroPaddedDecimalString (nat (DateFromTime t)) 2 =
     ToZeroPaddedDecimalString (nat (DateFromTime u)) 2"
    "yearString (YearFromTime t) = yearString (YearFromTime u)"
    unfolding DateString_def by simp_all
  have month: "MonthFromTime t = MonthFromTime u"
    using eqs(1) MonthFromTime_bounds by (simp add: monthName_inj)
  have "nat (DateFromTime t) = nat (DateFromTime u)"
    using eqs(2) decimal_value_padded by metis
  then have date: "DateFromTime t = DateFromTime u"
    using DateFromTime_bounds [of t] DateFromTime_bounds [of u] by linarith
  have year: "YearFromTime t = YearFromTime u"
    using eqs(3) by (rule yearString_inj)
  show ?thesis using year month date by (rule calendar_day_inj)
qed

lemma DateString_cong: "Day t = Day u \<Longrightarrow> DateString t = DateString u"
  using calendar_day_cong [of t u] by (simp add: DateString_def)

lemma DateString_eq_iff: "DateString t = DateString u \<longleftrightarrow> Day t = Day u"
  using DateString_inj DateString_cong by blast

lemma DateString_not_invalid: "DateString t \<noteq> ''Invalid Date''"
proof
  assume a: "DateString t = ''Invalid Date''"
  have "length (weekdayName (WeekDay t)) = 3"
    using WeekDay_bounds by (simp add: weekdayName_length)
  then have "(weekdayName (WeekDay t) @ '' '' @ monthName (MonthFromTime t) @ '' '' @
     ToZeroPaddedDecimalString (nat (DateFromTime t)) 2 @ '' '' @ yearString (YearFromTime t)) ! 3
     = CHR '' ''"
    by (simp add: nth_append)
  then show False using a by (simp add: DateString_def)
qed

section \<open>Range validity\<close>

text \<open>
  C3. \<^verbatim>\<open>isValidDateRange\<close> holds of a range exactly when both bounds are present, both
  are valid dates, and the time value of \<open>from\<close> is at most that of \<open>to\<close>.
\<close>

theorem isValidDateRange_iff:
  "isValidDateRange rng \<longleftrightarrow>
     (\<exists>r f t. rng = Some r \<and> from_d r = Some f \<and> to_d r = Some t \<and>
        isValid f \<and> isValid t \<and> date_le f t)"
  by (auto simp: isValidDateRange_def split: option.splits)

section \<open>The handlers\<close>

lemma valid_range_D1_D2: "isValidDateRange (Some range_D1_D2)"
  by (simp add: isValidDateRange_def range_D1_D2_def D1_def D2_def)

lemma invalid_range_D1_only: "\<not> isValidDateRange (Some range_D1_only)"
  by (simp add: isValidDateRange_def range_D1_only_def)

text \<open>
  C1. When the draft is present but not a valid range, \<^verbatim>\<open>handleApply\<close> does nothing:
  it calls no setter and no callback, so the next state is the old one, draft and
  disclosure included. When the draft is absent or valid, it hands the draft to the
  callback, once, which makes it the host's committed value, and asks the disclosure to
  close.
\<close>

theorem handleApply_gate:
  "(tempRange s \<noteq> None \<and> \<not> isValidDateRange (tempRange s) \<longrightarrow>
      handleApply p s = [] \<and> emitted (handleApply p s) = [] \<and>
      commit s (handleApply p s) = s) \<and>
   (tempRange s = None \<or> isValidDateRange (tempRange s) \<longrightarrow>
      emitted (handleApply p s) = [tempRange s] \<and>
      host_value (value_prop p) (handleApply p s) = tempRange s \<and>
      SetOpen False \<in> set (handleApply p s) \<and>
      commit s (handleApply p s) = s\<lparr>is_open := False\<rparr>)"
  by (simp add: handleApply_def commit_def host_value_def)

text \<open>Scenario A of the specification, and an apply of a complete range.\<close>

theorem handleApply_gate_witness:
  "handleApply default_props \<lparr>is_open = True, tempRange = Some range_D1_only\<rparr> = [] \<and>
   commit \<lparr>is_open = True, tempRange = Some range_D1_only\<rparr>
     (handleApply default_props \<lparr>is_open = True, tempRange = Some range_D1_only\<rparr>) =
     \<lparr>is_open = True, tempRange = Some range_D1_only\<rparr> \<and>
   emitted (handleApply default_props \<lparr>is_open = True, tempRange = Some range_D1_D2\<rparr>) =
     [Some range_D1_D2] \<and>
   commit \<lparr>is_open = True, tempRange = Some range_D1_D2\<rparr>
     (handleApply default_props \<lparr>is_open = True, tempRange = Some range_D1_D2\<rparr>) =
     \<lparr>is_open = False, tempRange = Some range_D1_D2\<rparr>"
  using handleApply_gate [of "\<lparr>is_open = True, tempRange = Some range_D1_only\<rparr>" default_props]
    handleApply_gate [of "\<lparr>is_open = True, tempRange = Some range_D1_D2\<rparr>" default_props]
    valid_range_D1_D2 invalid_range_D1_only
  by (simp add: commit_def)

text \<open>
  C5. \<^verbatim>\<open>handleOpenChange(false)\<close>, the close request of an outside click or of the
  escape key, calls no callback. With apply-on-predefined-select disabled the draft is
  reset to the committed value; with it enabled the draft is left as it is.
\<close>

theorem handleOpenChange_close:
  "emitted (handleOpenChange p s False) = [] \<and>
   SetOpen False \<in> set (handleOpenChange p s False) \<and>
   (\<not> applyOnPredefinedSelect p \<longrightarrow>
      commit s (handleOpenChange p s False) = \<lparr>is_open = False, tempRange = value_prop p\<rparr>) \<and>
   (applyOnPredefinedSelect p \<longrightarrow>
      commit s (handleOpenChange p s False) = s\<lparr>is_open := False\<rparr>)"
  by (simp add: handleOpenChange_def commit_def)

text \<open>Scenario C of the specification, and the same close with the option enabled.\<close>

theorem handleOpenChange_close_witness:
  "commit \<lparr>is_open = True, tempRange = Some range_D3_D4\<rparr>
     (handleOpenChange
        (default_props\<lparr>value_prop := Some range_D1_D2, applyOnPredefinedSelect := False\<rparr>)
        \<lparr>is_open = True, tempRange = Some range_D3_D4\<rparr> False) =
     \<lparr>is_open = False, tempRange = Some range_D1_D2\<rparr> \<and>
   emitted
     (handleOpenChange
        (default_props\<lparr>value_prop := Some range_D1_D2, applyOnPredefinedSelect := False\<rparr>)
        \<lparr>is_open = True, tempRange = Some range_D3_D4\<rparr> False) = [] \<and>
   commit \<lparr>is_open = True, tempRange = Some range_D3_D4\<rparr>
     (handleOpenChange (default_props\<lparr>value_prop := Some range_D1_D2\<rparr>)
        \<lparr>is_open = True, tempRange = Some range_D3_D4\<rparr> False) =
     \<lparr>is_open = False, tempRange = Some range_D3_D4\<rparr>"
  using handleOpenChange_close
    [of "default_props\<lparr>value_prop := Some range_D1_D2, applyOnPredefinedSelect := False\<rparr>"
        "\<lparr>is_open = True, tempRange = Some range_D3_D4\<rparr>"]
    handleOpenChange_close
    [of "default_props\<lparr>value_prop := Some range_D1_D2\<rparr>"
        "\<lparr>is_open = True, tempRange = Some range_D3_D4\<rparr>"]
  by (simp add: default_props_def)

text \<open>
  C6. \<^verbatim>\<open>handleClear\<close> always sets the draft to absent. With clear-on-select enabled it
  also hands absent to the callback, and closes the disclosure when close-on-clear is
  enabled too (and leaves it alone otherwise). With clear-on-select disabled the callback
  is not called and only the draft changes.
\<close>

theorem handleClear_effects:
  "tempRange (commit s (handleClear p s)) = None \<and>
   (clearOnSelect p \<longrightarrow>
      emitted (handleClear p s) = [None] \<and>
      (closeOnClear p \<longrightarrow>
         SetOpen False \<in> set (handleClear p s) \<and>
         commit s (handleClear p s) = \<lparr>is_open = False, tempRange = None\<rparr>) \<and>
      (\<not> closeOnClear p \<longrightarrow> commit s (handleClear p s) = s\<lparr>tempRange := None\<rparr>)) \<and>
   (\<not> clearOnSelect p \<longrightarrow>
      emitted (handleClear p s) = [] \<and>
      commit s (handleClear p s) = s\<lparr>tempRange := None\<rparr>)"
  by (simp add: handleClear_def commit_def)

text \<open>Scenario D of the specification, and the same clear with clear-on-select disabled.\<close>

theorem handleClear_effects_witness:
  "emitted (handleClear (default_props\<lparr>value_prop := Some range_D1_D2\<rparr>)
      \<lparr>is_open = True, tempRange = Some range_D1_D2\<rparr>) = [None] \<and>
   commit \<lparr>is_open = True, tempRange = Some range_D1_D2\<rparr>
     (handleClear (default_props\<lparr>value_prop := Some range_D1_D2\<rparr>)
        \<lparr>is_open = True, tempRange = Some range_D1_D2\<rparr>) =
     \<lparr>is_open = False, tempRange = None\<rparr> \<and>
   emitted (handleClear (default_props\<lparr>value_prop := Some range_D1_D2, clearOnSelect := False\<rparr>)
      \<lparr>is_open = True, tempRange = Some range_D1_D2\<rparr>) = [] \<and>
   commit \<lparr>is_open = True, tempRange = Some range_D1_D2\<rparr>
     (handleClear (default_props\<lparr>value_prop := Some range_D1_D2, clearOnSelect := False\<rparr>)
        \<lparr>is_open = True, tempRange = Some range_D1_D2\<rparr>) =
     \<lparr>is_open = True, tempRange = None\<rparr>"
  using handleClear_effects
    [of "\<lparr>is_open = True, tempRange = Some range_D1_D2\<rparr>"
        "default_props\<lparr>value_prop := Some range_D1_D2\<rparr>"]
    handleClear_effects
    [of "\<lparr>is_open = True, tempRange = Some range_D1_D2\<rparr>"
        "default_props\<lparr>value_prop := Some range_D1_D2, clearOnSelect := False\<rparr>"]
  by (simp add: default_props_def)

text \<open>
  C7. \<^verbatim>\<open>handlePredefinedRangeSelect\<close> sets the draft to the range it is given. It
  hands that range to the callback, and asks the disclosure to close, if and only if
  apply-on-predefined-select is enabled.
\<close>

theorem handlePredefinedRangeSelect_effects:
  "tempRange (commit s (handlePredefinedRangeSelect p s r)) = Some r \<and>
   (applyOnPredefinedSelect p \<longleftrightarrow> OnChange (Some r) \<in> set (handlePredefinedRangeSelect p s r)) \<and>
   (applyOnPredefinedSelect p \<longleftrightarrow> SetOpen False \<in> set (handlePredefinedRangeSelect p s r)) \<and>
   emitted (handlePredefinedRangeSelect p s r) =
     (if applyOnPredefinedSelect p then [Some r] else []) \<and>
   commit s (handlePredefinedRangeSelect p s r) =
     (if applyOnPredefinedSelect p then \<lparr>is_open = False, tempRange = Some r\<rparr>
      else s\<lparr>tempRange := Some r\<rparr>)"
  by (simp add: handlePredefinedRangeSelect_def commit_def)

text \<open>Scenario B of the specification, and the same selection with the option disabled.\<close>

theorem handlePredefinedRangeSelect_effects_witness:
  "emitted (handlePredefinedRangeSelect default_props \<lparr>is_open = True, tempRange = None\<rparr>
      range_D1_D2) = [Some range_D1_D2] \<and>
   commit \<lparr>is_open = True, tempRange = None\<rparr>
     (handlePredefinedRangeSelect default_props \<lparr>is_open = True, tempRange = None\<rparr>
        range_D1_D2) =
     \<lparr>is_open = False, tempRange = Some range_D1_D2\<rparr> \<and>
   emitted (handlePredefinedRangeSelect (default_props\<lparr>applyOnPredefinedSelect := False\<rparr>)
      \<lparr>is_open = True, tempRange = None\<rparr> range_D1_D2) = [] \<and>
   commit \<lparr>is_open = True, tempRange = None\<rparr>
     (handlePredefinedRangeSelect (default_props\<lparr>applyOnPredefinedSelect := False\<rparr>)
        \<lparr>is_open = True, tempRange = None\<rparr> range_D1_D2) =
     \<lparr>is_open = True, tempRange = Some range_D1_D2\<rparr>"
  using handlePredefinedRangeSelect_effects
    [of "\<lparr>is_open = True, tempRange = None\<rparr>" default_props range_D1_D2]
    handlePredefinedRangeSelect_effects
    [of "\<lparr>is_open = True, tempRange = None\<rparr>"
        "default_props\<lparr>applyOnPredefinedSelect := False\<rparr>" range_D1_D2]
  by (simp add: default_props_def)

text \<open>
  C10. With clear-on-select disabled, \<^verbatim>\<open>handleClear\<close> calls one setter only, the one of
  the draft: the disclosure keeps its state whatever close-on-clear says, the callback is
  not called, and the host's committed value stays what it was.
\<close>

theorem handleClear_local:
  "\<not> clearOnSelect p \<Longrightarrow>
     handleClear p s = [SetTempRange None] \<and>
     commit s (handleClear p s) = s\<lparr>tempRange := None\<rparr> \<and>
     is_open (commit s (handleClear p s)) = is_open s \<and>
     emitted (handleClear p s) = [] \<and>
     host_value (value_prop p) (handleClear p s) = value_prop p"
  by (simp add: handleClear_def commit_def host_value_def)

theorem handleClear_local_witness:
  "closeOnClear (default_props\<lparr>value_prop := Some range_D1_D2, clearOnSelect := False\<rparr>) \<and>
   commit \<lparr>is_open = True, tempRange = Some range_D1_D2\<rparr>
     (handleClear (default_props\<lparr>value_prop := Some range_D1_D2, clearOnSelect := False\<rparr>)
        \<lparr>is_open = True, tempRange = Some range_D1_D2\<rparr>) =
     \<lparr>is_open = True, tempRange = None\<rparr> \<and>
   emitted (handleClear (default_props\<lparr>value_prop := Some range_D1_D2, clearOnSelect := False\<rparr>)
      \<lparr>is_open = True, tempRange = Some range_D1_D2\<rparr>) = [] \<and>
   host_value (Some range_D1_D2)
     (handleClear (default_props\<lparr>value_prop := Some range_D1_D2, clearOnSelect := False\<rparr>)
        \<lparr>is_open = True, tempRange = Some range_D1_D2\<rparr>) = Some range_D1_D2"
  using handleClear_local
    [of "default_props\<lparr>value_prop := Some range_D1_D2, clearOnSelect := False\<rparr>"
        "\<lparr>is_open = True, tempRange = Some range_D1_D2\<rparr>"]
  by (simp add: default_props_def commit_def host_value_def)

text \<open>
  C9, as the code has it. A second \<^verbatim>\<open>handleApply\<close> on the state the first one left,
  whatever the props of that render, leaves the state as it is, and hands the callback
  exactly what the first call handed it: the draft when it is absent or valid, nothing
  when it is present and invalid. The handler keeps no record of an earlier apply.
\<close>

theorem handleApply_twice:
  "commit (commit s (handleApply p s)) (handleApply p' (commit s (handleApply p s))) =
     commit s (handleApply p s) \<and>
   emitted (handleApply p' (commit s (handleApply p s))) = emitted (handleApply p s) \<and>
   emitted (handleApply p s) =
     (if tempRange s = None \<or> isValidDateRange (tempRange s) then [tempRange s] else [])"
  by (simp add: handleApply_def commit_def)

theorem handleApply_twice_witness:
  "emitted (handleApply default_props
      (commit \<lparr>is_open = True, tempRange = Some range_D1_only\<rparr>
         (handleApply default_props \<lparr>is_open = True, tempRange = Some range_D1_only\<rparr>))) = [] \<and>
   emitted (handleApply default_props
      (commit \<lparr>is_open = True, tempRange = Some range_D1_D2\<rparr>
         (handleApply default_props \<lparr>is_open = True, tempRange = Some range_D1_D2\<rparr>))) =
     [Some range_D1_D2]"
  using handleApply_twice
    [of "\<lparr>is_open = True, tempRange = Some range_D1_only\<rparr>" default_props default_props]
    handleApply_twice
    [of "\<lparr>is_open = True, tempRange = Some range_D1_D2\<rparr>" default_props default_props]
    valid_range_D1_D2 invalid_range_D1_only
  by simp

text \<open>
  The claim as the specification states it promises no second emission. With a complete
  valid draft the second call hands the draft to the callback again.
\<close>

theorem handleApply_twice_counterexample:
  "emitted (handleApply default_props
      (commit \<lparr>is_open = True, tempRange = Some range_D1_D2\<rparr>
         (handleApply default_props \<lparr>is_open = True, tempRange = Some range_D1_D2\<rparr>))) \<noteq> []"
  using valid_range_D1_D2 by (simp add: handleApply_def commit_def)

text \<open>
  C2, as the code has it. The callback is called only by a successful apply (with the
  draft, which is then absent or valid), by a predefined selection under
  apply-on-predefined-select (with the selected range as it was given), and by a clear
  under clear-on-select (with absent); a calendar step, a change of the disclosure and
  the synchronising effect never call it. The predefined range passes no validity gate:
  what is emitted is absent or valid whenever the selected range is valid.
\<close>

theorem onChange_commit_points:
  "(\<forall>v \<in> set (emitted (dispatch p s e)).
      (e = Apply \<and> v = tempRange s \<and> (v = None \<or> isValidDateRange v)) \<or>
      (\<exists>r. e = PredefinedRangeSelect r \<and> v = Some r \<and> applyOnPredefinedSelect p) \<or>
      (e = Clear \<and> clearOnSelect p \<and> v = None)) \<and>
   emitted (dispatch p s (RangeSelect rng)) = [] \<and>
   emitted (dispatch p s (OpenChange b)) = [] \<and>
   emitted (dispatch p s ValueChange) = [] \<and>
   ((\<forall>r. e = PredefinedRangeSelect r \<longrightarrow> isValidDateRange (Some r)) \<longrightarrow>
      (\<forall>v \<in> set (emitted (dispatch p s e)). v = None \<or> isValidDateRange v))"
  by (cases e)
    (auto simp: handleApply_def handleClear_def handleOpenChange_def
      handlePredefinedRangeSelect_def handleRangeSelect_def syncTempRange_def)

theorem onChange_commit_points_witness:
  "emitted (dispatch default_props \<lparr>is_open = True, tempRange = None\<rparr>
      (PredefinedRangeSelect range_D1_D2)) = [Some range_D1_D2] \<and>
   isValidDateRange (Some range_D1_D2) \<and>
   emitted (dispatch default_props \<lparr>is_open = True, tempRange = None\<rparr>
      (RangeSelect (Some range_D1_only))) = []"
  using onChange_commit_points
    [of default_props "\<lparr>is_open = True, tempRange = None\<rparr>"
        "PredefinedRangeSelect range_D1_D2" "Some range_D1_only" False]
    valid_range_D1_D2
  by (simp add: handlePredefinedRangeSelect_def default_props_def)

text \<open>
  The claim as the specification states it promises that every range emitted by a
  predefined selection is complete and valid. A catalogue entry is any
  \<^verbatim>\<open>DateRange\<close> the host supplies; one with no upper bound is emitted as it is.
\<close>

theorem onChange_commit_points_counterexample:
  "emitted (handlePredefinedRangeSelect default_props \<lparr>is_open = True, tempRange = None\<rparr>
      range_D1_only) = [Some range_D1_only] \<and>
   Some range_D1_only \<noteq> None \<and> \<not> isValidDateRange (Some range_D1_only)"
  using invalid_range_D1_only by (simp add: handlePredefinedRangeSelect_def default_props_def)

section \<open>Range equality at day granularity\<close>

lemma calendarDay_eq_iff_Day:
  "calendarDay tza (Date a) = calendarDay tza (Date b) \<longleftrightarrow>
     Day (LocalTime tza a) = Day (LocalTime tza b)"
  using calendar_day_inj [of "LocalTime tza a" "LocalTime tza b"]
    calendar_day_cong [of "LocalTime tza a" "LocalTime tza b"]
  by (auto simp: calendarDay_def)

lemma toDateString_eq_iff:
  "toDateString tza d = toDateString tza e \<longleftrightarrow> calendarDay tza d = calendarDay tza e"
proof (cases d)
  case InvalidDate
  then show ?thesis
    by (cases e)
      (simp_all add: toDateString_def calendarDay_def DateString_not_invalid [THEN not_sym])
next
  case d: (Date a)
  show ?thesis
  proof (cases e)
    case InvalidDate
    then show ?thesis
      using d by (simp add: toDateString_def calendarDay_def DateString_not_invalid)
  next
    case (Date b)
    then show ?thesis
      using d calendarDay_eq_iff_Day [of tza a b]
      by (simp add: toDateString_def DateString_eq_iff)
  qed
qed

lemma toDateString_D1: "toDateString utc D1 = ''Fri Jan 05 2024''"
  unfolding D1_def by code_simp

text \<open>
  C4, as the code has it. \<^verbatim>\<open>isRangeEqual\<close> holds exactly when both ranges are complete
  and, on each bound, the two dates have the same calendar day in local time (year, month
  and day of the month) or are both Invalid Dates, which have no calendar day and print
  the same text. In particular two complete ranges of valid dates that fall on the same
  local days compare equal whatever their times of day, and a pair in which a range is
  absent or lacks a bound compares unequal.
\<close>

theorem isRangeEqual_iff:
  "(isRangeEqual tza range1 range2 \<longleftrightarrow>
      (\<exists>r1 r2 f1 t1 f2 t2.
          range1 = Some r1 \<and> from_d r1 = Some f1 \<and> to_d r1 = Some t1 \<and>
          range2 = Some r2 \<and> from_d r2 = Some f2 \<and> to_d r2 = Some t2 \<and>
          calendarDay tza f1 = calendarDay tza f2 \<and>
          calendarDay tza t1 = calendarDay tza t2)) \<and>
   (Day (LocalTime tza a) = Day (LocalTime tza a') \<and>
    Day (LocalTime tza b) = Day (LocalTime tza b') \<longrightarrow>
      isRangeEqual tza (Some \<lparr>from_d = Some (Date a), to_d = Some (Date b)\<rparr>)
        (Some \<lparr>from_d = Some (Date a'), to_d = Some (Date b')\<rparr>)) \<and>
   (from_d r = None \<or> to_d r = None \<longrightarrow>
      \<not> isRangeEqual tza (Some r) other \<and> \<not> isRangeEqual tza other (Some r)) \<and>
   \<not> isRangeEqual tza None other \<and> \<not> isRangeEqual tza other None"
proof (intro conjI impI)
  show "isRangeEqual tza range1 range2 \<longleftrightarrow>
      (\<exists>r1 r2 f1 t1 f2 t2.
          range1 = Some r1 \<and> from_d r1 = Some f1 \<and> to_d r1 = Some t1 \<and>
          range2 = Some r2 \<and> from_d r2 = Some f2 \<and> to_d r2 = Some t2 \<and>
          calendarDay tza f1 = calendarDay tza f2 \<and>
          calendarDay tza t1 = calendarDay tza t2)"
    by (auto simp: isRangeEqual_def toDateString_eq_iff split: option.splits)
next
  assume "Day (LocalTime tza a) = Day (LocalTime tza a') \<and>
    Day (LocalTime tza b) = Day (LocalTime tza b')"
  then show "isRangeEqual tza (Some \<lparr>from_d = Some (Date a), to_d = Some (Date b)\<rparr>)
        (Some \<lparr>from_d = Some (Date a'), to_d = Some (Date b')\<rparr>)"
    by (simp add: isRangeEqual_def toDateString_eq_iff calendarDay_eq_iff_Day)
next
  assume "from_d r = None \<or> to_d r = None"
  then show "\<not> isRangeEqual tza (Some r) other" "\<not> isRangeEqual tza other (Some r)"
    by (auto simp: isRangeEqual_def split: option.splits)
next
  show "\<not> isRangeEqual tza None other" "\<not> isRangeEqual tza other None"
    by (simp_all add: isRangeEqual_def split: option.splits)
qed

text \<open>
  Midnight against noon of the same two days, and a range with no upper bound.
\<close>

theorem isRangeEqual_iff_witness:
  "D1 \<noteq> D1_noon \<and> D2 \<noteq> D2_noon \<and>
   isRangeEqual utc (Some range_D1_D2) (Some \<lparr>from_d = Some D1_noon, to_d = Some D2_noon\<rparr>) \<and>
   \<not> isRangeEqual utc (Some range_D1_only) (Some range_D1_D2) \<and>
   \<not> isRangeEqual utc (Some range_D1_D2) (Some range_D1_only)"
  using isRangeEqual_iff
    [of utc None None 1704412800000 1704456000000 1704499200000 1704542400000
        range_D1_only "Some range_D1_D2"]
  by (simp add: range_D1_D2_def range_D1_only_def D1_def D2_def D1_noon_def D2_noon_def
      Day_def msPerDay_def LocalTime_def utc_def)

text \<open>
  The claim as the specification states it makes equality of calendar days necessary. A
  range whose bounds are Invalid Dates has none, and compares equal to itself.
\<close>

theorem isRangeEqual_iff_counterexample:
  "isRangeEqual utc (Some range_invalid) (Some range_invalid) \<and>
   calendarDay utc InvalidDate = None"
  by (simp add: isRangeEqual_def range_invalid_def calendarDay_def)

section \<open>The text of the trigger\<close>

lemma render_D1: "render_LLL_dd_y (LocalTime utc 1704412800000) = ''Jan 05, 2024''"
  by code_simp

lemma render_D2: "render_LLL_dd_y (LocalTime utc 1704499200000) = ''Jan 06, 2024''"
  by code_simp

text \<open>
  C8, as the code has it. For a range whose present bounds are valid dates,
  \<^verbatim>\<open>formatDateRange\<close> returns the placeholder when \<open>from\<close> is absent (and when the
  range itself is), the one formatted \<open>from\<close> date when \<open>to\<close> is absent or the same
  instant, which is not the dash-joined pair, and otherwise both bounds in the format
  \<^verbatim>\<open>LLL dd, y\<close> joined by \<^verbatim>\<open>" - "\<close>. When \<open>from\<close> is an Invalid Date, or \<open>from\<close> is
  present and \<open>to\<close> is an Invalid Date, the call of \<^verbatim>\<open>format\<close> throws and
  \<^verbatim>\<open>formatDateRange\<close> returns nothing.
\<close>

theorem formatDateRange_cases:
  "formatDateRange tza p None = Inr (placeholder p) \<and>
   (from_d r = None \<longrightarrow> formatDateRange tza p (Some r) = Inr (placeholder p)) \<and>
   (from_d r = Some (Date a) \<and> (to_d r = None \<or> to_d r = Some (Date a)) \<longrightarrow>
      formatDateRange tza p (Some r) = Inr (render_LLL_dd_y (LocalTime tza a)) \<and>
      formatDateRange tza p (Some r) \<noteq>
        Inr (render_LLL_dd_y (LocalTime tza a) @ '' - '' @ render_LLL_dd_y (LocalTime tza a))) \<and>
   (from_d r = Some (Date a) \<and> to_d r = Some (Date b) \<and> a \<noteq> b \<longrightarrow>
      formatDateRange tza p (Some r) =
        Inr (render_LLL_dd_y (LocalTime tza a) @ '' - '' @ render_LLL_dd_y (LocalTime tza b))) \<and>
   (from_d r = Some InvalidDate \<or> (from_d r \<noteq> None \<and> to_d r = Some InvalidDate) \<longrightarrow>
      formatDateRange tza p (Some r) = Inl RangeError)"
proof (intro conjI impI)
  show "formatDateRange tza p None = Inr (placeholder p)"
    by (simp add: formatDateRange_def)
next
  assume "from_d r = None"
  then show "formatDateRange tza p (Some r) = Inr (placeholder p)"
    by (simp add: formatDateRange_def)
next
  assume h: "from_d r = Some (Date a) \<and> (to_d r = None \<or> to_d r = Some (Date a))"
  then show one: "formatDateRange tza p (Some r) = Inr (render_LLL_dd_y (LocalTime tza a))"
    by (auto simp: formatDateRange_def format_LLL_dd_y_def)
  show "formatDateRange tza p (Some r) \<noteq>
        Inr (render_LLL_dd_y (LocalTime tza a) @ '' - '' @ render_LLL_dd_y (LocalTime tza a))"
    unfolding one by simp
next
  assume "from_d r = Some (Date a) \<and> to_d r = Some (Date b) \<and> a \<noteq> b"
  then show "formatDateRange tza p (Some r) =
        Inr (render_LLL_dd_y (LocalTime tza a) @ '' - '' @ render_LLL_dd_y (LocalTime tza b))"
    by (simp add: formatDateRange_def format_LLL_dd_y_def)
next
  assume h: "from_d r = Some InvalidDate \<or> (from_d r \<noteq> None \<and> to_d r = Some InvalidDate)"
  show "formatDateRange tza p (Some r) = Inl RangeError"
  proof (cases "from_d r")
    case None
    then show ?thesis using h by simp
  next
    case (Some f)
    show ?thesis
    proof (cases f)
      case InvalidDate
      then show ?thesis
        using Some by (simp add: formatDateRange_def format_LLL_dd_y_def split: option.splits)
    next
      case (Date x)
      then have "to_d r = Some InvalidDate" using h Some by simp
      then show ?thesis
        using Some Date by (simp add: formatDateRange_def format_LLL_dd_y_def)
    qed
  qed
qed

text \<open>
  The default placeholder, scenario E of the specification, a range with no upper bound
  and a range of two days.
\<close>

theorem formatDateRange_cases_witness:
  "formatDateRange utc default_props None = Inr ''Select date range'' \<and>
   formatDateRange utc default_props (Some \<lparr>from_d = Some D1, to_d = Some D1\<rparr>) =
     Inr ''Jan 05, 2024'' \<and>
   formatDateRange utc default_props (Some range_D1_only) = Inr ''Jan 05, 2024'' \<and>
   formatDateRange utc default_props (Some range_D1_D2) = Inr ''Jan 05, 2024 - Jan 06, 2024''"
  using formatDateRange_cases
    [of utc default_props "\<lparr>from_d = Some D1, to_d = Some D1\<rparr>" 1704412800000 0]
    formatDateRange_cases [of utc default_props range_D1_only 1704412800000 0]
    formatDateRange_cases [of utc default_props range_D1_D2 1704412800000 1704499200000]
  by (simp add: default_props_def range_D1_only_def range_D1_D2_def D1_def D2_def
      render_D1 render_D2)

text \<open>
  The claim as the specification states it covers every range. On a range whose
  \<open>from\<close> is an Invalid Date, date-fns throws.
\<close>

theorem formatDateRange_cases_counterexample:
  "formatDateRange utc default_props (Some range_invalid_only) = Inl RangeError"
  by (simp add: formatDateRange_def format_LLL_dd_y_def range_invalid_only_def)

end
